theory Spec2Isabelle
  imports Complex_Main
begin

section \<open>The car racing simulator (practice codes/cargame.py)\<close>

text \<open>
  A shallow embedding of the car kinematics (\<open>Car.update\<close>), the track builder
  (\<open>Track._draw_track\<close>, \<open>Track._draw_dashed_line\<close>), the surface sampler
  (\<open>Track.is_on_track\<close>) and the lap bookkeeping (\<open>Game.update\<close>).

  Conventions of the embedding:
  \<^item> Python \<open>float\<close> values (speed, position, clock readings) are idealised as
    \<open>real\<close> numbers: arithmetic is exact, rounding is not modelled.
  \<^item> Python \<open>int\<close> values (heading angle, pixel coordinates, colour channels) are \<open>int\<close>.
  \<^item> An exception is a value \<open>Inl e\<close> of a sum type; a normal result is \<open>Inr v\<close>.
  \<^item> pygame itself is outside the repository. Its rasteriser is not modelled: drawing
    yields the list of drawing commands issued, and the pixel surface that
    \<open>is_on_track\<close> reads back is a parameter of the model.
\<close>

subsection \<open>Python and pygame primitives\<close>

datatype py_error = IndexError | ZeroDivisionError | AttributeError

text \<open>True division \<open>a / b\<close>: raises \<open>ZeroDivisionError\<close> on a zero divisor.\<close>

definition py_truediv :: "real \<Rightarrow> real \<Rightarrow> py_error + real" where
  "py_truediv a b = (if b = 0 then Inl ZeroDivisionError else Inr (a / b))"

text \<open>\<open>int(v)\<close> on a float: truncation toward zero.\<close>

definition py_int :: "real \<Rightarrow> int" where
  "py_int v = (if 0 \<le> v then \<lfloor>v\<rfloor> else \<lceil>v\<rceil>)"

text \<open>\<open>math.radians\<close> and \<open>math.hypot\<close>.\<close>

definition radians :: "real \<Rightarrow> real" where
  "radians d = d * pi / 180"

definition hypot :: "real \<Rightarrow> real \<Rightarrow> real" where
  "hypot a b = sqrt (a * a + b * b)"

text \<open>\<open>v or d\<close> on a float \<open>v\<close>: the value \<open>0.0\<close> is falsy.\<close>

definition float_or :: "real \<Rightarrow> real \<Rightarrow> real" where
  "float_or v d = (if v = 0 then d else v)"

text \<open>\<open>v or d\<close> where \<open>v\<close> is \<open>None\<close> or a float: \<open>None\<close> and \<open>0.0\<close> are both falsy.\<close>

definition opt_float_or :: "real option \<Rightarrow> real \<Rightarrow> real" where
  "opt_float_or v d = (case v of None \<Rightarrow> d | Some r \<Rightarrow> float_or r d)"

type_synonym point = "real \<times> real"
type_synonym colour = "int \<times> int \<times> int"
type_synonym pixel = "int \<times> int \<times> int \<times> int"

definition WIDTH :: int where "WIDTH = 800"
definition HEIGHT :: int where "HEIGHT = 600"

definition WHITE :: colour where "WHITE = (255, 255, 255)"
definition GRAY :: colour where "GRAY = (100, 100, 100)"
definition GREEN :: colour where "GREEN = (0, 200, 0)"
definition RED :: colour where "RED = (200, 0, 0)"

text \<open>
  \<open>pygame.Rect\<close>: integer left, top, width and height. Built from floats, the
  coordinates are truncated to integers.
\<close>

record rect =
  rect_left :: int
  rect_top :: int
  rect_w :: int
  rect_h :: int

definition Rect :: "real \<Rightarrow> real \<Rightarrow> int \<Rightarrow> int \<Rightarrow> rect" where
  "Rect a b w h = \<lparr>rect_left = py_int a, rect_top = py_int b, rect_w = w, rect_h = h\<rparr>"

text \<open>
  \<open>Rect.colliderect\<close>: the two rectangles overlap in a region of positive area;
  rectangles that only share an edge, or have no area, do not collide.
\<close>

definition colliderect :: "rect \<Rightarrow> rect \<Rightarrow> bool" where
  "colliderect r1 r2 =
     (0 < rect_w r1 \<and> 0 < rect_h r1 \<and> 0 < rect_w r2 \<and> 0 < rect_h r2 \<and>
      rect_left r1 < rect_left r2 + rect_w r2 \<and> rect_left r2 < rect_left r1 + rect_w r1 \<and>
      rect_top r1 < rect_top r2 + rect_h r2 \<and> rect_top r2 < rect_top r1 + rect_h r1)"

text \<open>
  A \<open>pygame.Surface\<close> as read by \<open>get_at\<close>: a grid of RGBA pixels. Reading
  outside the grid raises \<open>IndexError\<close> (the exception \<open>is_on_track\<close> catches).
\<close>

record pg_surface =
  surf_width :: int
  surf_height :: int
  pixels :: "int \<Rightarrow> int \<Rightarrow> pixel"

definition get_at :: "pg_surface \<Rightarrow> int \<times> int \<Rightarrow> py_error + pixel" where
  "get_at s p =
     (if 0 \<le> fst p \<and> fst p < surf_width s \<and> 0 \<le> snd p \<and> snd p < surf_height s
      then Inr (pixels s (fst p) (snd p)) else Inl IndexError)"

subsection \<open>Car\<close>

text \<open>
  The keyboard snapshot \<open>keys\<close>, restricted to the eight keys \<open>Car.update\<close> reads.
\<close>

record keys =
  K_UP :: bool
  K_w :: bool
  K_DOWN :: bool
  K_s :: bool
  K_LEFT :: bool
  K_a :: bool
  K_RIGHT :: bool
  K_d :: bool

text \<open>
  The attributes of \<open>Car\<close>. The fields \<open>x\<close>, \<open>y\<close>, \<open>length\<close> and \<open>width\<close> of the
  source are named \<open>car_x\<close>, \<open>car_y\<close>, \<open>car_length\<close> and \<open>car_width\<close> here.
\<close>

record car =
  car_x :: real
  car_y :: real
  angle :: int
  speed :: real
  max_speed :: real
  acceleration :: real
  deceleration :: real
  friction :: real
  turn_speed :: int
  car_length :: int
  car_width :: int

definition Car_init :: "real \<Rightarrow> real \<Rightarrow> car" where
  "Car_init x0 y0 =
     \<lparr>car_x = x0, car_y = y0, angle = 0, speed = 0, max_speed = 7,
      acceleration = 15 / 100, deceleration = 3 / 10, friction = 5 / 100,
      turn_speed = 4, car_length = 64, car_width = 32\<rparr>"

text \<open>Lines 76 to 84: throttle, brake, or friction.\<close>

definition longitudinal :: "keys \<Rightarrow> car \<Rightarrow> real" where
  "longitudinal k c =
     (if K_UP k \<or> K_w k then speed c + acceleration c
      else if K_DOWN k \<or> K_s k then speed c - deceleration c
      else if speed c > 0 then speed c - friction c
      else if speed c < 0 then speed c + friction c
      else speed c)"

text \<open>Line 86: \<open>max(min(speed, max_speed), -max_speed / 2)\<close>.\<close>

definition clamp_speed :: "car \<Rightarrow> real \<Rightarrow> real" where
  "clamp_speed c v = max (min v (max_speed c)) (- max_speed c / 2)"

text \<open>
  Lines 88 to 90 and 92 to 94: the heading after the left-steer statement and after
  the right-steer statement, for the clamped speed \<open>v\<close>.
\<close>

definition steer_left :: "keys \<Rightarrow> car \<Rightarrow> real \<Rightarrow> int \<Rightarrow> int" where
  "steer_left k c v a =
     (if (K_LEFT k \<or> K_a k) \<and> v \<noteq> 0
      then a + turn_speed c * (if v > 0 then 1 else - 1) else a)"

definition steer_right :: "keys \<Rightarrow> car \<Rightarrow> real \<Rightarrow> int \<Rightarrow> int" where
  "steer_right k c v a =
     (if (K_RIGHT k \<or> K_d k) \<and> v \<noteq> 0
      then a + turn_speed c * (if v > 0 then - 1 else 1) else a)"

text \<open>\<open>Car.update\<close>, lines 75 to 101.\<close>

definition Car_update :: "keys \<Rightarrow> car \<Rightarrow> car" where
  "Car_update k c =
     (let v = clamp_speed c (longitudinal k c);
          a = steer_right k c v (steer_left k c v (angle c));
          rad = radians (real_of_int a);
          x1 = car_x c + - sin rad * v;
          y1 = car_y c + - cos rad * v
      in c\<lparr>speed := v, angle := a,
            car_x := max 0 (min (real_of_int WIDTH) x1),
            car_y := max 0 (min (real_of_int HEIGHT) y1)\<rparr>)"

subsection \<open>Track\<close>

text \<open>The drawing commands issued to pygame, in the order they are issued.\<close>

datatype draw_cmd =
  Fill colour
| Polygon colour "point list"
| Line colour point point int
| DrawRect colour rect

text \<open>A \<open>for\<close> loop whose body may raise: it stops at the first exception.\<close>

fun for_each :: "('a \<Rightarrow> py_error + 'b) \<Rightarrow> 'a list \<Rightarrow> py_error + 'b list" where
  "for_each f [] = Inr []"
| "for_each f (x # xs) =
     (case f x of
        Inl e \<Rightarrow> Inl e
      | Inr y \<Rightarrow> (case for_each f xs of Inl e \<Rightarrow> Inl e | Inr ys \<Rightarrow> Inr (y # ys)))"

text \<open>The pairs \<open>(path[i], path[i + 1])\<close> for \<open>i\<close> in \<open>range(len(path) - 1)\<close>.\<close>

definition segments :: "point list \<Rightarrow> (point \<times> point) list" where
  "segments path = zip path (tl path)"

text \<open>
  Lines 132 to 142 (and again 144 to 153): the left and right boundary points of the
  segment from \<open>c\<close> to \<open>n\<close>, with \<open>length = math.hypot(dx, dy) or 1\<close>.
\<close>

definition boundary_offsets :: "int \<Rightarrow> point \<Rightarrow> point \<Rightarrow> py_error + (point \<times> point)" where
  "boundary_offsets rw c n =
     (let dx = fst n - fst c;
          dy = snd n - snd c;
          len = float_or (hypot dx dy) 1
      in case py_truediv dx len of
           Inl e \<Rightarrow> Inl e
         | Inr ux \<Rightarrow>
             (case py_truediv dy len of
                Inl e \<Rightarrow> Inl e
              | Inr uy \<Rightarrow>
                  (let plx = - uy * (real_of_int rw / 2);
                       ply = ux * (real_of_int rw / 2)
                   in Inr ((fst c + plx, snd c + ply), (fst c - plx, snd c - ply)))))"

text \<open>
  \<open>Track._draw_dashed_line\<close>, lines 165 to 180. The length is \<open>math.hypot\<close> of the
  segment as it is, and every later division is by that length.
\<close>

definition draw_dashed_line ::
  "colour \<Rightarrow> point \<Rightarrow> point \<Rightarrow> real \<Rightarrow> real \<Rightarrow> int \<Rightarrow> py_error + draw_cmd list" where
  "draw_dashed_line color start_pos end_pos dash_length space_length width =
     (let x1 = fst start_pos; y1 = snd start_pos;
          x2 = fst end_pos; y2 = snd end_pos;
          len = hypot (x2 - x1) (y2 - y1)
      in case py_truediv len (dash_length + space_length) of
           Inl e \<Rightarrow> Inl e
         | Inr q \<Rightarrow>
        (let dash_count = py_int q
         in case py_truediv (x2 - x1) len of
           Inl e \<Rightarrow> Inl e
         | Inr qx \<Rightarrow>
        (let dash_dx = qx * dash_length
         in case py_truediv (y2 - y1) len of
           Inl e \<Rightarrow> Inl e
         | Inr qy \<Rightarrow>
        (let dash_dy = qy * dash_length
         in case py_truediv (x2 - x1) len of
           Inl e \<Rightarrow> Inl e
         | Inr rx \<Rightarrow>
        (let space_dx = rx * space_length
         in case py_truediv (y2 - y1) len of
           Inl e \<Rightarrow> Inl e
         | Inr ry \<Rightarrow>
        (let space_dy = ry * space_length
         in Inr (map (\<lambda>i.
                  let start_x = x1 + (dash_dx + space_dx) * real i;
                      start_y = y1 + (dash_dy + space_dy) * real i;
                      end_x = start_x + dash_dx;
                      end_y = start_y + dash_dy
                  in Line color (start_x, start_y) (end_x, end_y) width)
                [0 ..< nat dash_count])))))))"

text \<open>
  \<open>Track._draw_track\<close>, lines 126 to 163, as a function of the attributes of
  \<open>self\<close> it reads: \<open>track_color\<close>, \<open>road_width\<close>, \<open>center_path\<close>, and
  \<open>finish_line_color\<close> and \<open>finish_line\<close>. The last two are options: \<open>None\<close> stands
  for an attribute that has not been assigned, and reading it raises
  \<open>AttributeError\<close>.
\<close>

definition draw_track ::
  "colour \<Rightarrow> int \<Rightarrow> point list \<Rightarrow> colour option \<Rightarrow> rect option \<Rightarrow> py_error + draw_cmd list" where
  "draw_track tc rw path flc fl =
     (case for_each (\<lambda>cn. boundary_offsets rw (fst cn) (snd cn)) (segments path) of
        Inl e \<Rightarrow> Inl e
      | Inr offs \<Rightarrow>
     (if path = [] then Inl IndexError
      else case boundary_offsets rw (last path) (hd path) of
        Inl e \<Rightarrow> Inl e
      | Inr off \<Rightarrow>
     (let points_left = map fst offs @ [fst off];
          points_right = map snd offs @ [snd off];
          track_poly = points_left @ rev points_right
      in case for_each (\<lambda>se. draw_dashed_line WHITE (fst se) (snd se) 15 10 3) (segments path) of
        Inl e \<Rightarrow> Inl e
      | Inr dashes \<Rightarrow>
     (case flc of
        None \<Rightarrow> Inl AttributeError
      | Some col \<Rightarrow>
     (case fl of
        None \<Rightarrow> Inl AttributeError
      | Some r \<Rightarrow>
          Inr ([Fill GREEN, Polygon tc track_poly] @ concat dashes @ [DrawRect col r]))))))"

text \<open>The center path hard-coded in \<open>Track.__init__\<close>, lines 114 to 119.\<close>

definition center_path_init :: "point list" where
  "center_path_init =
     map (\<lambda>p. (real_of_int (fst p), real_of_int (snd p)))
       [(WIDTH div 2, HEIGHT div 4), (WIDTH div 2 + 160, HEIGHT div 2 - 100),
        (WIDTH div 2 + 180, HEIGHT div 2 + 50), (WIDTH div 2 + 140, HEIGHT div 2 + 150),
        (WIDTH div 2, HEIGHT div 2 + 210), (WIDTH div 2 - 130, HEIGHT div 2 + 180),
        (WIDTH div 2 - 160, HEIGHT div 2 + 100), (WIDTH div 2 - 110, HEIGHT div 2 - 30)]"

text \<open>
  \<open>Track.__init__\<close>, lines 108 to 122, with the hard-coded point list as the
  parameter \<open>pts\<close>: the first point is appended to close the path, then
  \<open>_draw_track\<close> runs, before \<open>finish_line\<close> and \<open>finish_line_color\<close> are assigned
  (lines 123 and 124).
\<close>

definition Track_init_draw :: "point list \<Rightarrow> py_error + draw_cmd list" where
  "Track_init_draw pts =
     (case pts of
        [] \<Rightarrow> Inl IndexError
      | p # _ \<Rightarrow> draw_track GRAY 180 (pts @ [p]) None None)"

text \<open>The attributes of a \<open>Track\<close> object.\<close>

record track =
  surface :: pg_surface
  track_color :: colour
  road_width :: int
  center_path :: "point list"
  finish_line :: rect
  finish_line_color :: colour

text \<open>
  The attribute values \<open>Track.__init__\<close> assigns, for a given rasterised surface.
\<close>

definition Track_attributes :: "pg_surface \<Rightarrow> track" where
  "Track_attributes s =
     \<lparr>surface = s, track_color = GRAY, road_width = 180,
      center_path = center_path_init @ [hd center_path_init],
      finish_line = Rect (real_of_int (WIDTH div 2 - 5)) (real_of_int (HEIGHT div 4 - 180 div 2)) 10 180,
      finish_line_color = RED\<rparr>"

text \<open>\<open>color_close\<close> (lines 188 and 189) and the slice \<open>[:3]\<close> of a pixel.\<close>

definition color_close :: "colour \<Rightarrow> colour \<Rightarrow> int \<Rightarrow> bool" where
  "color_close c1 c2 tol =
     (case c1 of (r1, g1, b1) \<Rightarrow> case c2 of (r2, g2, b2) \<Rightarrow>
        \<bar>r1 - r2\<bar> < tol \<and> \<bar>g1 - g2\<bar> < tol \<and> \<bar>b1 - b2\<bar> < tol)"

definition rgb :: "pixel \<Rightarrow> colour" where
  "rgb p = (case p of (r, g, b, al) \<Rightarrow> (r, g, b))"

text \<open>
  \<open>Track.is_on_track\<close>, lines 185 to 192. The handler catches \<open>IndexError\<close> only;
  any other exception would propagate.
\<close>

definition is_on_track :: "track \<Rightarrow> real \<Rightarrow> real \<Rightarrow> py_error + bool" where
  "is_on_track t x y =
     (case get_at (surface t) (py_int x, py_int y) of
        Inl e \<Rightarrow> (case e of IndexError \<Rightarrow> Inr False | _ \<Rightarrow> Inl e)
      | Inr p \<Rightarrow>
          (let color = rgb p
           in Inr (color_close color (track_color t) 30 \<or> color_close color WHITE 30)))"

text \<open>\<open>Track.check_finish_line_cross\<close>, lines 194 and 195.\<close>

definition check_finish_line_cross :: "track \<Rightarrow> rect \<Rightarrow> rect \<Rightarrow> bool" where
  "check_finish_line_cross t r prev_r =
     (colliderect (finish_line t) r \<and> \<not> colliderect (finish_line t) prev_r)"

subsection \<open>Game\<close>

record game =
  track :: track
  car :: car
  start_time :: "real option"
  lap_time :: real
  best_lap_time :: "real option"
  laps_completed :: int
  prev_car_rect :: rect
  game_over :: bool

text \<open>
  \<open>Game.__init__\<close>, lines 201 to 208, for a track that has been constructed.
\<close>

definition Game_init :: "track \<Rightarrow> py_error + game" where
  "Game_init t =
     (case center_path t of
        [] \<Rightarrow> Inl IndexError
      | p # _ \<Rightarrow>
          (let c = Car_init (fst p) (snd p + 50)
           in Inr \<lparr>track = t, car = c, start_time = None, lap_time = 0,
                   best_lap_time = None, laps_completed = 0,
                   prev_car_rect = Rect (car_x c) (car_y c) (car_length c) (car_width c),
                   game_over = False\<rparr>))"

text \<open>
  Lines 227 to 235: the body of the crossing branch, with the clock reading
  \<open>time.time()\<close> as the parameter \<open>now\<close>.
\<close>

definition record_crossing :: "real \<Rightarrow> game \<Rightarrow> game" where
  "record_crossing now g =
     (case start_time g of
        None \<Rightarrow> g\<lparr>start_time := Some now\<rparr>
      | Some st \<Rightarrow>
          (let lap = now - st
           in g\<lparr>best_lap_time := Some (min (opt_float_or (best_lap_time g) lap) lap),
                lap_time := lap,
                start_time := Some now,
                laps_completed := laps_completed g + 1\<rparr>))"

text \<open>
  \<open>Game.update\<close>, lines 217 to 237, for the keyboard snapshot \<open>k\<close> and the clock
  reading \<open>now\<close>.
\<close>

definition Game_update :: "keys \<Rightarrow> real \<Rightarrow> game \<Rightarrow> py_error + game" where
  "Game_update k now g =
     (let c = Car_update k (car g);
          car_rect = Rect (car_x c - real_of_int (car_length c div 2))
                          (car_y c - real_of_int (car_width c div 2))
                          (car_length c) (car_width c)
      in case is_on_track (track g) (car_x c) (car_y c) of
           Inl e \<Rightarrow> Inl e
         | Inr on_track \<Rightarrow>
             (let c' = (if \<not> on_track then c\<lparr>speed := speed c * (95 / 100)\<rparr> else c);
                  g1 = g\<lparr>car := c'\<rparr>;
                  g2 = (if check_finish_line_cross (track g) car_rect (prev_car_rect g)
                           \<and> speed c' > 0
                        then record_crossing now g1 else g1)
              in Inr (g2\<lparr>prev_car_rect := car_rect\<rparr>)))"

text \<open>
  A run of the loop of \<open>Game.run\<close> for a finite list of ticks, each a keyboard
  snapshot and a clock reading; an exception ends the run.
\<close>

fun Game_run :: "game \<Rightarrow> (keys \<times> real) list \<Rightarrow> py_error + game" where
  "Game_run g [] = Inr g"
| "Game_run g (t # ts) =
     (case Game_update (fst t) (snd t) g of
        Inl e \<Rightarrow> Inl e
      | Inr g' \<Rightarrow> Game_run g' ts)"


text \<open>
  The crossing branch run once for each clock reading of a list, in order: the lap
  bookkeeping after that many crossing events.
\<close>

fun crossings :: "game \<Rightarrow> real list \<Rightarrow> game" where
  "crossings g [] = g"
| "crossings g (t # ts) = crossings (record_crossing t g) ts"

text \<open>
  The lap durations of a run, in the words of the specification: the differences
  between the clock readings of consecutive crossing events, the first of them at
  \<open>st\<close> and the later ones at the readings of the list.
\<close>

fun lap_durations :: "real \<Rightarrow> real list \<Rightarrow> real list" where
  "lap_durations st [] = []"
| "lap_durations st (t # ts) = (t - st) # lap_durations t ts"

subsection \<open>Sample inputs\<close>

definition no_keys :: keys where
  "no_keys = \<lparr>K_UP = False, K_w = False, K_DOWN = False, K_s = False,
              K_LEFT = False, K_a = False, K_RIGHT = False, K_d = False\<rparr>"

text \<open>A surface of the window's size filled with one colour.\<close>

definition plain_surface :: "colour \<Rightarrow> pg_surface" where
  "plain_surface col =
     \<lparr>surf_width = WIDTH, surf_height = HEIGHT,
      pixels = (\<lambda>px py. (fst col, fst (snd col), snd (snd col), 255))\<rparr>"

text \<open>
  The state \<open>Game.__init__\<close> builds on a track whose surface is all road: the car
  at rest at \<open>(400, 200)\<close>, no lap started.
\<close>

definition road_game :: game where
  "road_game =
     \<lparr>track = Track_attributes (plain_surface GRAY), car = Car_init 400 200,
      start_time = None, lap_time = 0, best_lap_time = None, laps_completed = 0,
      prev_car_rect = Rect 400 200 64 32, game_over = False\<rparr>"

text \<open>The same state on a surface that is all grass.\<close>

definition grass_game :: game where
  "grass_game = road_game\<lparr>track := Track_attributes (plain_surface GREEN)\<rparr>"



text \<open>
  A lap in progress since clock reading 10, the car above the finish line at full
  reverse speed, its previous bounding box clear of the line.
\<close>

definition backing_game :: game where
  "backing_game =
     road_game\<lparr>car := (Car_init 400 42)\<lparr>speed := - (7 / 2)\<rparr>,
                prev_car_rect := Rect 368 26 64 32,
                start_time := Some 10\<rparr>"

section \<open>Properties\<close>

subsection \<open>Car kinematics\<close>

lemma speed_Car_update: "speed (Car_update k c) = clamp_speed c (longitudinal k c)"
  by (simp add: Car_update_def Let_def)

lemma angle_Car_update:
  "angle (Car_update k c) =
     steer_right k c (clamp_speed c (longitudinal k c))
       (steer_left k c (clamp_speed c (longitudinal k c)) (angle c))"
  by (simp add: Car_update_def Let_def)

lemma consts_Car_update:
  "max_speed (Car_update k c) = max_speed c"
  "acceleration (Car_update k c) = acceleration c"
  "deceleration (Car_update k c) = deceleration c"
  "friction (Car_update k c) = friction c"
  "turn_speed (Car_update k c) = turn_speed c"
  by (simp_all add: Car_update_def Let_def)

lemma clamp_speed_bounds:
  assumes "0 \<le> max_speed c"
  shows "- max_speed c / 2 \<le> clamp_speed c v" and "clamp_speed c v \<le> max_speed c"
  using assms by (auto simp: clamp_speed_def)

text \<open>
  C9. Within one tick the heading changes only if the speed is nonzero when steering
  is evaluated (the clamped speed, which is the speed \<open>Car.update\<close> leaves) and a steer
  key is held: if that speed is zero, or none of the four steer keys is held, the
  heading after the tick is the heading before it.
\<close>

theorem heading_changes_only_when_steering:
  assumes "speed (Car_update k c) = 0 \<or> \<not> (K_LEFT k \<or> K_a k \<or> K_RIGHT k \<or> K_d k)"
  shows "angle (Car_update k c) = angle c"
  using assms
  by (auto simp: angle_Car_update speed_Car_update steer_left_def steer_right_def)

text \<open>At rest with the left key held and no throttle, the speed stays zero and the heading is kept.\<close>

theorem heading_changes_only_when_steering_witness:
  "speed (Car_update (no_keys\<lparr>K_LEFT := True\<rparr>) (Car_init 400 200)) = 0
   \<and> angle (Car_update (no_keys\<lparr>K_LEFT := True\<rparr>) (Car_init 400 200)) = angle (Car_init 400 200)"
proof -
  have v: "speed (Car_update (no_keys\<lparr>K_LEFT := True\<rparr>) (Car_init 400 200)) = 0"
    by (simp add: speed_Car_update clamp_speed_def longitudinal_def no_keys_def Car_init_def)
  from heading_changes_only_when_steering[of "no_keys\<lparr>K_LEFT := True\<rparr>" "Car_init 400 200"] v
  show ?thesis by simp
qed

text \<open>
  C10. With a left and a right steer key held in the same tick the heading after the
  tick equals the heading before it, for every speed and heading. For a nonzero speed
  \<open>v\<close> the left statement and the right statement each turn by \<open>turn_speed\<close> in
  magnitude, in opposite directions, and applying one after the other gives the
  heading back.
\<close>

theorem opposite_steering_cancels:
  assumes "K_LEFT k \<or> K_a k" and "K_RIGHT k \<or> K_d k"
  shows "angle (Car_update k c) = angle c
       \<and> (v \<noteq> 0 \<longrightarrow>
            \<bar>steer_left k c v a - a\<bar> = \<bar>turn_speed c\<bar>
          \<and> steer_right k c v a - a = - (steer_left k c v a - a)
          \<and> steer_right k c v (steer_left k c v a) = a)"
  using assms
  by (auto simp: angle_Car_update steer_left_def steer_right_def)

text \<open>Throttle, left arrow and \<open>d\<close> held from rest: the car moves and the heading is kept.\<close>

theorem opposite_steering_cancels_witness:
  "K_LEFT (no_keys\<lparr>K_UP := True, K_LEFT := True, K_d := True\<rparr>)
   \<and> K_d (no_keys\<lparr>K_UP := True, K_LEFT := True, K_d := True\<rparr>)
   \<and> speed (Car_update (no_keys\<lparr>K_UP := True, K_LEFT := True, K_d := True\<rparr>) (Car_init 400 200))
       = 3 / 20
   \<and> angle (Car_update (no_keys\<lparr>K_UP := True, K_LEFT := True, K_d := True\<rparr>) (Car_init 400 200))
       = angle (Car_init 400 200)"
proof -
  let ?k = "no_keys\<lparr>K_UP := True, K_LEFT := True, K_d := True\<rparr>"
  have l: "K_LEFT ?k \<or> K_a ?k" and r: "K_RIGHT ?k \<or> K_d ?k"
    by (simp_all add: no_keys_def)
  have v: "speed (Car_update ?k (Car_init 400 200)) = 3 / 20"
    by (simp add: speed_Car_update clamp_speed_def longitudinal_def no_keys_def Car_init_def)
  from opposite_steering_cancels[OF l r, of "Car_init 400 200"] v
  show ?thesis by (simp add: no_keys_def)
qed

text \<open>
  C4, as the code has it. On a tick with neither throttle nor brake held, a positive
  speed decreases by the friction constant 0.05 and a negative speed increases by it
  (then the range clamp applies), and a zero speed stays zero. From a speed of
  magnitude at least 0.05 the sign is kept or the speed becomes zero, and from a
  magnitude of exactly 0.05 it becomes exactly zero. From a nonzero speed of magnitude
  below 0.05 the full step is still taken, so the speed crosses zero and changes sign.
\<close>

theorem friction_step:
  assumes "\<not> (K_UP k \<or> K_w k)" and "\<not> (K_DOWN k \<or> K_s k)"
    and "friction c = 5 / 100" and "max_speed c = 7"
  shows "(0 < speed c \<longrightarrow> speed (Car_update k c) = min (speed c - 5 / 100) 7)
       \<and> (speed c < 0 \<longrightarrow> speed (Car_update k c) = max (speed c + 5 / 100) (- (7 / 2)))
       \<and> (speed c = 0 \<longrightarrow> speed (Car_update k c) = 0)
       \<and> (5 / 100 \<le> speed c \<longrightarrow> 0 \<le> speed (Car_update k c))
       \<and> (speed c \<le> - (5 / 100) \<longrightarrow> speed (Car_update k c) \<le> 0)
       \<and> (\<bar>speed c\<bar> = 5 / 100 \<longrightarrow> speed (Car_update k c) = 0)
       \<and> (0 < speed c \<and> speed c < 5 / 100 \<longrightarrow> speed (Car_update k c) < 0)
       \<and> (- (5 / 100) < speed c \<and> speed c < 0 \<longrightarrow> 0 < speed (Car_update k c))"
proof -
  have v: "speed (Car_update k c) =
      max (min (if speed c > 0 then speed c - 5 / 100
                else if speed c < 0 then speed c + 5 / 100 else speed c) 7) (- (7 / 2))"
    using assms(1,2) by (simp add: speed_Car_update clamp_speed_def longitudinal_def assms(3,4))
  show ?thesis
    unfolding v by (auto simp: min_def max_def)
qed

text \<open>
  Coasting at speeds 0.1, -0.1, 0, 0.05 and -0.02: the next speeds are 0.05, -0.05, 0,
  0 and 0.03.
\<close>

theorem friction_step_witness:
  "speed (Car_update no_keys ((Car_init 400 200)\<lparr>speed := 1 / 10\<rparr>)) = 1 / 20
   \<and> speed (Car_update no_keys ((Car_init 400 200)\<lparr>speed := - (1 / 10)\<rparr>)) = - (1 / 20)
   \<and> speed (Car_update no_keys ((Car_init 400 200)\<lparr>speed := 0\<rparr>)) = 0
   \<and> speed (Car_update no_keys ((Car_init 400 200)\<lparr>speed := 1 / 20\<rparr>)) = 0
   \<and> speed (Car_update no_keys ((Car_init 400 200)\<lparr>speed := - (1 / 50)\<rparr>)) = 3 / 100"
proof -
  have k: "\<not> (K_UP no_keys \<or> K_w no_keys)" "\<not> (K_DOWN no_keys \<or> K_s no_keys)"
    by (simp_all add: no_keys_def)
  have c: "friction ((Car_init 400 200)\<lparr>speed := v\<rparr>) = 5 / 100"
    "max_speed ((Car_init 400 200)\<lparr>speed := v\<rparr>) = 7"
    "speed ((Car_init 400 200)\<lparr>speed := v\<rparr>) = v" for v
    by (simp_all add: Car_init_def)
  show ?thesis
    using friction_step[OF k c(1,2), of "1 / 10"] friction_step[OF k c(1,2), of "- (1 / 10)"]
      friction_step[OF k c(1,2), of 0] friction_step[OF k c(1,2), of "1 / 20"]
      friction_step[OF k c(1,2), of "- (1 / 50)"]
    unfolding c(3) by simp
qed

text \<open>
  The claim that friction never overshoots zero fails: coasting at speed 0.02, within
  one friction step of zero, the next speed is -0.03.
\<close>

theorem friction_overshoots_zero:
  "0 < speed ((Car_init 400 200)\<lparr>speed := 1 / 50\<rparr>)
   \<and> speed ((Car_init 400 200)\<lparr>speed := 1 / 50\<rparr>) \<le> friction ((Car_init 400 200)\<lparr>speed := 1 / 50\<rparr>)
   \<and> speed (Car_update no_keys ((Car_init 400 200)\<lparr>speed := 1 / 50\<rparr>)) = - (3 / 100)
   \<and> speed (Car_update no_keys ((Car_init 400 200)\<lparr>speed := 1 / 50\<rparr>)) < 0"
  by (simp add: speed_Car_update clamp_speed_def longitudinal_def no_keys_def Car_init_def)

subsection \<open>Surface sampler\<close>

lemma is_on_track_cases:
  "is_on_track t x y = Inr False \<or> is_on_track t x y = Inr True"
  by (auto simp: is_on_track_def get_at_def Let_def)

text \<open>
  C6. For all real \<open>x\<close> and \<open>y\<close>, \<open>is_on_track\<close> returns a boolean and raises
  nothing; when the pixel coordinates \<open>(int(x), int(y))\<close> lie outside the surface it
  returns \<open>False\<close>.
\<close>

theorem is_on_track_fails_closed:
  "(\<exists>b. is_on_track t x y = Inr b)
   \<and> (\<not> (0 \<le> py_int x \<and> py_int x < surf_width (surface t)
          \<and> 0 \<le> py_int y \<and> py_int y < surf_height (surface t))
        \<longrightarrow> is_on_track t x y = Inr False)"
  by (auto simp: is_on_track_def get_at_def Let_def)

text \<open>The point \<open>(800, 300)\<close> is one column past the right edge of the 800 by 600 surface.\<close>

theorem is_on_track_fails_closed_witness:
  "py_int 800 = 800 \<and> surf_width (surface (track road_game)) = 800
   \<and> is_on_track (track road_game) 800 300 = Inr False"
proof -
  have w: "py_int 800 = 800" and s: "surf_width (surface (track road_game)) = 800"
    by (simp_all add: py_int_def road_game_def Track_attributes_def plain_surface_def WIDTH_def)
  from is_on_track_fails_closed[of "track road_game" 800 300] w s
  show ?thesis by simp
qed



text \<open>A channel difference of exactly 30 is not within the tolerance.\<close>

lemma is_on_track_tolerance_exclusive:
  "is_on_track (Track_attributes (plain_surface (130, 130, 130))) 400 200 = Inr False"
  by (simp add: is_on_track_def get_at_def Track_attributes_def plain_surface_def py_int_def
      rgb_def color_close_def GRAY_def WHITE_def WIDTH_def HEIGHT_def)

subsection \<open>One tick of the game\<close>

lemma Game_update_Inr:
  "\<exists>on. is_on_track (track g) (car_x (Car_update k (car g))) (car_y (Car_update k (car g))) = Inr on \<and>
     (\<exists>g'. Game_update k now g = Inr g' \<and> track g' = track g \<and>
        car g' = (if on then Car_update k (car g)
                  else (Car_update k (car g))\<lparr>speed := speed (Car_update k (car g)) * (95 / 100)\<rparr>))"
proof -
  let ?c = "Car_update k (car g)"
  from is_on_track_cases[of "track g" "car_x ?c" "car_y ?c"]
  obtain on where on: "is_on_track (track g) (car_x ?c) (car_y ?c) = Inr on" by blast
  have tr: "track (record_crossing now h) = track h" and cr: "car (record_crossing now h) = car h" for h
    by (simp_all add: record_crossing_def Let_def split: option.splits)
  show ?thesis
    using on by (simp add: Game_update_def Let_def tr cr)
qed

lemma Game_update_speed:
  assumes "0 \<le> max_speed (car g)"
  shows "\<exists>g'. Game_update k now g = Inr g' \<and> max_speed (car g') = max_speed (car g) \<and>
           - max_speed (car g) / 2 \<le> speed (car g') \<and> speed (car g') \<le> max_speed (car g)"
proof -
  let ?c = "Car_update k (car g)"
  let ?v = "speed ?c"
  have lo: "- max_speed (car g) / 2 \<le> ?v" and hi: "?v \<le> max_speed (car g)"
    using clamp_speed_bounds[OF assms] by (simp_all add: speed_Car_update)
  have dlo: "- max_speed (car g) / 2 \<le> ?v * (95 / 100)"
    and dhi: "?v * (95 / 100) \<le> max_speed (car g)"
    using lo hi assms by linarith+
  from Game_update_Inr[of g k now] obtain on g' where
    g': "Game_update k now g = Inr g'"
    and c': "car g' = (if on then ?c else ?c\<lparr>speed := ?v * (95 / 100)\<rparr>)"
    by blast
  show ?thesis
    using g' c' lo hi dlo dhi by (cases on) (simp_all add: consts_Car_update)
qed
lemma Game_update_laps:
  assumes "Game_update k now g = Inr g'"
  shows "(if check_finish_line_cross (track g)
              (Rect (car_x (Car_update k (car g)) - real_of_int (car_length (Car_update k (car g)) div 2))
                    (car_y (Car_update k (car g)) - real_of_int (car_width (Car_update k (car g)) div 2))
                    (car_length (Car_update k (car g))) (car_width (Car_update k (car g))))
              (prev_car_rect g) \<and> speed (car g') > 0
          then start_time g' = start_time (record_crossing now g) \<and>
               lap_time g' = lap_time (record_crossing now g) \<and>
               best_lap_time g' = best_lap_time (record_crossing now g) \<and>
               laps_completed g' = laps_completed (record_crossing now g)
          else start_time g' = start_time g \<and> lap_time g' = lap_time g \<and>
               best_lap_time g' = best_lap_time g \<and> laps_completed g' = laps_completed g)"
proof -
  have rc: "car (record_crossing now h) = car h" for h
    by (simp add: record_crossing_def Let_def split: option.splits)
  have upd: "start_time (record_crossing now (h\<lparr>car := c\<rparr>)) = start_time (record_crossing now h)"
    "lap_time (record_crossing now (h\<lparr>car := c\<rparr>)) = lap_time (record_crossing now h)"
    "best_lap_time (record_crossing now (h\<lparr>car := c\<rparr>)) = best_lap_time (record_crossing now h)"
    "laps_completed (record_crossing now (h\<lparr>car := c\<rparr>)) = laps_completed (record_crossing now h)"
    for h c
    by (simp_all add: record_crossing_def Let_def split: option.splits)
  from is_on_track_cases[of "track g" "car_x (Car_update k (car g))" "car_y (Car_update k (car g))"]
  show ?thesis
  proof
    assume "is_on_track (track g) (car_x (Car_update k (car g))) (car_y (Car_update k (car g))) = Inr False"
    with assms show ?thesis
      by (simp add: Game_update_def Let_def rc upd split: if_splits) (auto simp: rc upd)
  next
    assume "is_on_track (track g) (car_x (Car_update k (car g))) (car_y (Car_update k (car g))) = Inr True"
    with assms show ?thesis
      by (simp add: Game_update_def Let_def rc upd split: if_splits) (auto simp: rc upd)
  qed
qed

text \<open>\<open>Game.update\<close> leaves the heading as \<open>Car.update\<close> set it.\<close>

lemma Game_update_angle:
  "\<exists>g'. Game_update k now g = Inr g' \<and> angle (car g') = angle (Car_update k (car g))"
  using Game_update_Inr[of g k now] by (auto split: if_splits)

text \<open>The sample state is the one \<open>Game.__init__\<close> builds on the all-road track.\<close>

lemma Game_init_road_game: "Game_init (Track_attributes (plain_surface GRAY)) = Inr road_game"
  by (simp add: Game_init_def Track_attributes_def center_path_init_def road_game_def
      Car_init_def WIDTH_def HEIGHT_def)


text \<open>
  C1. For every sequence of ticks, whatever the keys and whether or not the car is on
  the track, the run returns and the speed after it lies between \<open>-max_speed / 2\<close> and
  \<open>max_speed\<close>, provided the speed lies in that range at the start. With
  \<open>max_speed = 7\<close> the range is from -3.5 to 7. Every prefix of a tick sequence is a
  tick sequence, so the bound holds after each tick.
\<close>

theorem speed_within_limits:
  assumes "0 \<le> max_speed (car g)"
    and "- max_speed (car g) / 2 \<le> speed (car g)"
    and "speed (car g) \<le> max_speed (car g)"
  shows "\<exists>g'. Game_run g ticks = Inr g' \<and> max_speed (car g') = max_speed (car g) \<and>
           - max_speed (car g) / 2 \<le> speed (car g') \<and> speed (car g') \<le> max_speed (car g)"
  using assms
proof (induction ticks arbitrary: g)
  case Nil
  then show ?case by simp
next
  case (Cons t ts)
  from Game_update_speed[OF Cons.prems(1), of "fst t" "snd t"] obtain g1 where
    g1: "Game_update (fst t) (snd t) g = Inr g1"
    and m1: "max_speed (car g1) = max_speed (car g)"
    and lo1: "- max_speed (car g) / 2 \<le> speed (car g1)"
    and hi1: "speed (car g1) \<le> max_speed (car g)"
    by blast
  from Cons.IH[of g1] Cons.prems(1) m1 lo1 hi1 obtain g' where
    "Game_run g1 ts = Inr g'" "max_speed (car g') = max_speed (car g1)"
    "- max_speed (car g1) / 2 \<le> speed (car g')" "speed (car g') \<le> max_speed (car g1)"
    by auto
  then show ?case using g1 m1 by simp
qed

text \<open>Two ticks on grass, throttle then brake, from rest.\<close>

theorem speed_within_limits_witness:
  "0 \<le> max_speed (car grass_game)
   \<and> - max_speed (car grass_game) / 2 \<le> speed (car grass_game)
   \<and> speed (car grass_game) \<le> max_speed (car grass_game)
   \<and> (\<exists>g'. Game_run grass_game [(no_keys\<lparr>K_UP := True\<rparr>, 0), (no_keys\<lparr>K_s := True\<rparr>, 1)] = Inr g'
         \<and> - (7 / 2) \<le> speed (car g') \<and> speed (car g') \<le> 7)"
proof -
  have m: "max_speed (car grass_game) = 7" and v: "speed (car grass_game) = 0"
    by (simp_all add: grass_game_def road_game_def Car_init_def)
  have h: "0 \<le> max_speed (car grass_game)"
    "- max_speed (car grass_game) / 2 \<le> speed (car grass_game)"
    "speed (car grass_game) \<le> max_speed (car grass_game)"
    by (simp_all add: m v)
  from speed_within_limits[OF h, of "[(no_keys\<lparr>K_UP := True\<rparr>, 0), (no_keys\<lparr>K_s := True\<rparr>, 1)]"]
  obtain g' where
    "Game_run grass_game [(no_keys\<lparr>K_UP := True\<rparr>, 0), (no_keys\<lparr>K_s := True\<rparr>, 1)] = Inr g'"
    and "- max_speed (car grass_game) / 2 \<le> speed (car g')"
    and "speed (car g') \<le> max_speed (car grass_game)"
    by blast
  then show ?thesis using h unfolding m
    by (intro conjI exI[of _ g']) (simp_all del: Game_run.simps)
qed

text \<open>
  C2. A tick returns, and if the speed it leaves (the speed the crossing test reads)
  is not strictly positive, then the lap count, the last lap time, the best lap time
  and the start timestamp are unchanged, whether or not the bounding box newly
  overlaps the finish line.
\<close>

theorem no_crossing_without_forward_speed:
  "\<exists>g'. Game_update k now g = Inr g' \<and>
     (speed (car g') \<le> 0 \<longrightarrow>
        laps_completed g' = laps_completed g \<and> lap_time g' = lap_time g \<and>
        best_lap_time g' = best_lap_time g \<and> start_time g' = start_time g)"
proof -
  from Game_update_Inr[of g k now] obtain g' where g': "Game_update k now g = Inr g'" by blast
  from Game_update_laps[OF g'] have
    "speed (car g') \<le> 0 \<longrightarrow>
        laps_completed g' = laps_completed g \<and> lap_time g' = lap_time g \<and>
        best_lap_time g' = best_lap_time g \<and> start_time g' = start_time g"
    by (auto split: if_splits)
  with g' show ?thesis by blast
qed

text \<open>
  Backing onto the finish line from above at full reverse speed: the bounding box
  newly overlaps the line, and the lap bookkeeping is unchanged.
\<close>

theorem no_crossing_without_forward_speed_witness:
  "\<exists>g'. Game_update (no_keys\<lparr>K_DOWN := True\<rparr>) 12 backing_game = Inr g'
     \<and> speed (car g') \<le> 0
     \<and> laps_completed g' = laps_completed backing_game \<and> lap_time g' = lap_time backing_game
     \<and> best_lap_time g' = best_lap_time backing_game \<and> start_time g' = start_time backing_game"
proof -
  from no_crossing_without_forward_speed[of "no_keys\<lparr>K_DOWN := True\<rparr>" 12 backing_game]
  obtain g' where
    g': "Game_update (no_keys\<lparr>K_DOWN := True\<rparr>) 12 backing_game = Inr g'"
    and imp: "speed (car g') \<le> 0 \<longrightarrow>
        laps_completed g' = laps_completed backing_game \<and> lap_time g' = lap_time backing_game \<and>
        best_lap_time g' = best_lap_time backing_game \<and> start_time g' = start_time backing_game"
    by blast
  have c: "speed (Car_update (no_keys\<lparr>K_DOWN := True\<rparr>) (car backing_game)) = - (7 / 2)"
    by (simp add: speed_Car_update clamp_speed_def longitudinal_def no_keys_def
        backing_game_def road_game_def Car_init_def)
  from Game_update_Inr[of backing_game "no_keys\<lparr>K_DOWN := True\<rparr>" 12] g' c
  have "speed (car g') \<le> 0" by (auto split: if_splits)
  with g' imp show ?thesis by blast
qed

lemma backing_game_crosses:
  "check_finish_line_cross (track backing_game)
     (Rect (car_x (Car_update (no_keys\<lparr>K_DOWN := True\<rparr>) (car backing_game)) - 32)
           (car_y (Car_update (no_keys\<lparr>K_DOWN := True\<rparr>) (car backing_game)) - 16) 64 32)
     (prev_car_rect backing_game)"
  by (simp add: check_finish_line_cross_def colliderect_def Rect_def py_int_def
      backing_game_def road_game_def Track_attributes_def Car_update_def Let_def
      clamp_speed_def longitudinal_def steer_left_def steer_right_def radians_def
      no_keys_def Car_init_def WIDTH_def HEIGHT_def)

subsection \<open>Accelerating from rest\<close>




subsection \<open>Track construction\<close>

lemma boundary_offsets_Inr: "\<exists>v. boundary_offsets rw c n = Inr v"
  by (simp add: boundary_offsets_def Let_def py_truediv_def float_or_def)

lemma for_each_Inr:
  assumes "\<And>x. x \<in> set xs \<Longrightarrow> \<exists>y. f x = Inr y"
  shows "\<exists>ys. for_each f xs = Inr ys"
  using assms
proof (induction xs)
  case Nil
  then show ?case by simp
next
  case (Cons x xs)
  from Cons.prems[of x] obtain y where y: "f x = Inr y" by auto
  from Cons.IH Cons.prems obtain ys where ys: "for_each f xs = Inr ys" by auto
  show ?case by (simp add: y ys)
qed



lemma hypot_eq_0_iff: "hypot a b = 0 \<longleftrightarrow> a = 0 \<and> b = 0"
  by (simp add: hypot_def)

lemma draw_dashed_line_Inl_iff:
  "draw_dashed_line col p q 15 10 w = Inl e \<longleftrightarrow> p = q \<and> e = ZeroDivisionError"
proof (cases "p = q")
  case True
  then show ?thesis
    by (auto simp: draw_dashed_line_def Let_def py_truediv_def hypot_def)
next
  case False
  then have "hypot (fst q - fst p) (snd q - snd p) \<noteq> 0"
    by (auto simp: hypot_eq_0_iff prod_eq_iff)
  with False show ?thesis
    by (simp add: draw_dashed_line_def Let_def py_truediv_def)
qed


lemma draw_track_unassigned:
  assumes "path \<noteq> []" and "\<forall>s \<in> set (segments path). fst s \<noteq> snd s"
  shows "draw_track tc rw path None fl = Inl AttributeError"
proof -
  let ?dash = "\<lambda>se. draw_dashed_line WHITE (fst se) (snd se) 15 10 3"
  obtain offs where offs:
    "for_each (\<lambda>cn. boundary_offsets rw (fst cn) (snd cn)) (segments path) = Inr offs"
    using for_each_Inr[of "segments path" "\<lambda>cn. boundary_offsets rw (fst cn) (snd cn)"]
      boundary_offsets_Inr by blast
  obtain off where off: "boundary_offsets rw (last path) (hd path) = Inr off"
    using boundary_offsets_Inr by blast
  have "\<exists>y. ?dash s = Inr y" if "s \<in> set (segments path)" for s
    using that assms(2) draw_dashed_line_Inl_iff[of WHITE "fst s" "snd s" 3]
    by (cases "?dash s") auto
  from for_each_Inr[of "segments path" ?dash, OF this] obtain dashes where
    "for_each ?dash (segments path) = Inr dashes" by blast
  with assms(1) show ?thesis
    by (simp add: draw_track_def offs off Let_def)
qed

lemma Track_init_draw_center_path: "Track_init_draw center_path_init = Inl AttributeError"
proof -
  have "Track_init_draw center_path_init
      = draw_track GRAY 180 (center_path_init @ [hd center_path_init]) None None"
    by (simp add: Track_init_draw_def center_path_init_def)
  also have "\<dots> = Inl AttributeError"
    by (rule draw_track_unassigned)
       (simp_all add: center_path_init_def segments_def WIDTH_def HEIGHT_def)
  finally show ?thesis .
qed


subsection \<open>Lap bookkeeping\<close>

lemma record_crossing_best_le_last:
  assumes "start_time g \<noteq> None"
  shows "\<exists>b. best_lap_time (record_crossing now g) = Some b \<and> b \<le> lap_time (record_crossing now g)"
  using assms by (auto simp: record_crossing_def Let_def)

text \<open>
  Once a lap is recorded the best lap time is at most the last lap time, and as long as
  no recorded lap has duration exactly zero the best lap time is the minimum of the
  recorded laps.
\<close>

lemma crossings_best_le_last:
  assumes "start_time g = Some st" and "ts \<noteq> []"
  shows "\<exists>b. best_lap_time (crossings g ts) = Some b \<and> b \<le> lap_time (crossings g ts)"
  using assms
proof (induction ts arbitrary: g st)
  case Nil
  then show ?case by simp
next
  case (Cons t ts)
  have s1: "start_time (record_crossing t g) = Some t"
    using Cons.prems(1) by (simp add: record_crossing_def Let_def)
  show ?case
  proof (cases "ts = []")
    case True
    with record_crossing_best_le_last[of g t] Cons.prems(1) show ?thesis by simp
  next
    case False
    from Cons.IH[OF s1 False] show ?thesis by simp
  qed
qed

lemma crossings_best_running:
  assumes "start_time g = Some st" and "best_lap_time g = Some b" and "b \<noteq> 0"
    and "0 \<notin> set (lap_durations st ts)"
  shows "best_lap_time (crossings g ts) = Some (Min (insert b (set (lap_durations st ts))))"
  using assms
proof (induction ts arbitrary: g st b)
  case Nil
  then show ?case by simp
next
  case (Cons t ts)
  let ?lap = "t - st"
  let ?g1 = "record_crossing t g"
  have lap0: "?lap \<noteq> 0" and rest: "0 \<notin> set (lap_durations t ts)"
    using Cons.prems(4) by auto
  have s1: "start_time ?g1 = Some t"
    and b1: "best_lap_time ?g1 = Some (min b ?lap)"
    using Cons.prems(1,2,3)
    by (simp_all add: record_crossing_def Let_def opt_float_or_def float_or_def)
  have nz: "min b ?lap \<noteq> 0" using lap0 Cons.prems(3) by (simp add: min_def)
  have "best_lap_time (crossings ?g1 ts)
      = Some (Min (insert (min b ?lap) (set (lap_durations t ts))))"
    by (rule Cons.IH[OF s1 b1 nz rest])
  also have "Min (insert (min b ?lap) (set (lap_durations t ts)))
      = Min (insert b (insert ?lap (set (lap_durations t ts))))"
    by (cases "set (lap_durations t ts) = {}") (simp_all add: min.assoc)
  finally show ?case by simp
qed

lemma crossings_best_is_minimum:
  assumes "start_time g = Some st" and "best_lap_time g = None"
    and "ts \<noteq> []" and "0 \<notin> set (lap_durations st ts)"
  shows "best_lap_time (crossings g ts) = Some (Min (set (lap_durations st ts)))"
proof -
  from assms(3) obtain t ts' where ts: "ts = t # ts'" by (cases ts) auto
  let ?g1 = "record_crossing t g"
  have lap0: "t - st \<noteq> 0" and rest: "0 \<notin> set (lap_durations t ts')"
    using assms(4) ts by auto
  have s1: "start_time ?g1 = Some t" and b1: "best_lap_time ?g1 = Some (t - st)"
    using assms(1,2)
    by (simp_all add: record_crossing_def Let_def opt_float_or_def)
  from crossings_best_running[OF s1 b1 lap0 rest] show ?thesis
    by (simp add: ts)
qed






end
